theory Spec2Isabelle
  imports Main
begin

section \<open>Strings\<close>

text \<open>
  A Python \<open>str\<close> is modelled as a \<open>string\<close>: a list of characters, each a code point
  below 256. \<open>None\<close> is \<open>None\<close> of an option type, so that \<open>None\<close> and the empty string
  stay apart, as they do in the program.

  \<open>str.lower()\<close> on these code points adds 32 to \<open>A\<close>..\<open>Z\<close> (65..90) and to the
  capital letters 192..214 and 216..222, and leaves every other code point alone.
  On these ranges bit 5 is clear, so that adding 32 is setting bit 5.
\<close>

fun lower_char :: "char \<Rightarrow> char" where
  "lower_char (Char b0 b1 b2 b3 b4 b5 b6 b7) =
     (let n = (of_char (Char b0 b1 b2 b3 b4 b5 b6 b7) :: nat)
      in if (65 \<le> n \<and> n \<le> 90) \<or> (192 \<le> n \<and> n \<le> 214) \<or> (216 \<le> n \<and> n \<le> 222)
         then Char b0 b1 b2 b3 b4 True b6 b7
         else Char b0 b1 b2 b3 b4 b5 b6 b7)"

definition lower :: "string \<Rightarrow> string" where
  "lower s = map lower_char s"

definition startswith :: "string \<Rightarrow> string \<Rightarrow> bool" where
  "startswith s p \<longleftrightarrow> take (length p) s = p"

definition endswith :: "string \<Rightarrow> string \<Rightarrow> bool" where
  "endswith s e \<longleftrightarrow> length e \<le> length s \<and> drop (length s - length e) s = e"

text \<open>\<open>s.split(c)\<close>: never empty; \<open>''''.split(c)\<close> is the list holding the empty string.\<close>

fun split_on :: "char \<Rightarrow> string \<Rightarrow> string list" where
  "split_on c [] = [[]]"
| "split_on c (x # xs) =
     (if x = c then [] # split_on c xs
      else (case split_on c xs of [] \<Rightarrow> [[x]] | l # ls \<Rightarrow> (x # l) # ls))"

text \<open>\<open>sep.join(parts)\<close>.\<close>

fun join_with :: "string \<Rightarrow> string list \<Rightarrow> string" where
  "join_with sep [] = []"
| "join_with sep [p] = p"
| "join_with sep (p # q # ps) = p @ sep @ join_with sep (q # ps)"

text \<open>\<open>xs[-2:]\<close>: the last two elements, or all of a shorter list.\<close>

definition last_two :: "'a list \<Rightarrow> 'a list" where
  "last_two xs = drop (length xs - 2) xs"

text \<open>\<open>not domain\<close>: true of \<open>None\<close> and of the empty string.\<close>

fun falsy :: "string option \<Rightarrow> bool" where
  "falsy None = True"
| "falsy (Some s) = (s = [])"

section \<open>Domain classifier\<close>

definition restricted_tlds :: "string list" where
  "restricted_tlds =
     [''edu'', ''gov'', ''mil'', ''int'', ''arpa'',
      ''us.gov'', ''us.edu'', ''ac.uk'', ''gov.uk'', ''mil.uk'', ''ac.id'', ''nhs.uk'',
      ''police.uk'', ''mod.uk'', ''parliament.uk'', ''gov.au'', ''edu.au'']"

definition excluded_domain_endings :: "string list" where
  "excluded_domain_endings =
     [''.de'', ''.bg'', ''.br'', ''.com.au'', ''.edu.tw'', ''.dk'', ''.com:80'', ''.co.in'',
      ''.im'', ''.org:80'', ''.is'', ''.ch'', ''.ac.at'', ''.gov.ua'', ''.edu:8000'',
      ''.gov.pt'', ''.pk'', ''.hu'', ''.uam.es'', ''.at'', ''.jp'', ''.fi'']"

text \<open>The top-level labels tested first by \<open>is_restricted_tld\<close>.\<close>

definition restricted_top_level :: "string list" where
  "restricted_top_level = [''edu'', ''gov'', ''mil'', ''int'', ''arpa'']"

definition is_excluded_domain :: "string option \<Rightarrow> bool" where
  "is_excluded_domain domain =
     (if falsy domain then True
      else list_ex (\<lambda>ending. endswith (lower (the domain)) (lower ending))
             excluded_domain_endings)"

definition is_restricted_tld :: "string option \<Rightarrow> bool" where
  "is_restricted_tld domain =
     (if falsy domain then False
      else let domain_parts = split_on CHR ''.'' (lower (the domain))
           in if length domain_parts < 2 then False
              else if last domain_parts \<in> set restricted_top_level then True
              else if length domain_parts > 2
                      \<and> join_with ''.'' (last_two domain_parts) \<in> set restricted_tlds
                   then True
              else False)"

section \<open>Availability prober\<close>

text \<open>
  What the WHOIS library hands back. A date of a WHOIS entry is a \<open>datetime\<close> (here the
  integer of its position on the time line) or, when the library could not parse it, the
  raw text; a date field is absent, one date, or a list of dates. An entry answers every
  attribute, with \<open>None\<close> for one it has not, so that \<open>hasattr\<close> is true of it;
  \<open>whois_str\<close> is \<open>str(w)\<close>.
\<close>

type_synonym datetime = int

datatype date = DateTime datetime | DateText string

datatype date_field = NoDate | OneDate date | DateList "date list"

record whois_entry =
  registrar :: "string option"
  creation_date :: date_field
  expiration_date :: date_field
  whois_str :: string

text \<open>
  \<open>whois.whois(domain)\<close> returns an entry, raises \<open>PywhoisError\<close>, or raises another
  exception with a message. \<open>socket.gethostbyname\<close> returns, raises \<open>socket.gaierror\<close>,
  or raises another exception (a \<open>UnicodeError\<close> on a label that cannot be encoded).
\<close>

datatype whois_outcome = WhoisFound whois_entry | PywhoisError | WhoisException string

datatype dns_outcome = DnsResolved | DnsGaiError | DnsException string

datatype http_outcome = StatusCode int | RequestException string

datatype py_exception = Raised string

text \<open>Values of the \<open>details\<close> dictionary: a text, or \<open>str(...)\<close> of a date or a date field.\<close>

datatype detail = Text string | StrOfDate date | StrOfField date_field

record verdict =
  available :: bool
  status :: string
  details :: "(string \<times> detail) list"

text \<open>The effects of the program on the outside, in the order they happen.\<close>

datatype event =
    HttpHead string
  | HttpGet string
  | WhoisQuery string
  | DnsQuery string
  | FetchArticle string
  | SaveResults
  | SaveAvailableDomains
  | StError string
  | StWriteProcessing string nat nat
  | Progress nat nat
  | Sleep

text \<open>Truth value of a date field: \<open>None\<close>, the empty list and the empty text are false.\<close>

fun truthy_field :: "date_field \<Rightarrow> bool" where
  "truthy_field NoDate = False"
| "truthy_field (OneDate (DateTime t)) = True"
| "truthy_field (OneDate (DateText s)) = (s \<noteq> [])"
| "truthy_field (DateList ds) = (ds \<noteq> [])"

text \<open>
  \<open>expiry = w.expiration_date\<close>, replaced by \<open>expiry[0]\<close> when it is a list. Called on a
  truthy field only; the other equations make the function total.
\<close>

fun chosen_expiry :: "date_field \<Rightarrow> date option" where
  "chosen_expiry NoDate = None"
| "chosen_expiry (OneDate d) = Some d"
| "chosen_expiry (DateList []) = None"
| "chosen_expiry (DateList (d # ds)) = Some d"

definition type_error_message :: string where
  "type_error_message =
     [CHR 0x27] @ ''<'' @ [CHR 0x27] @ '' not supported between instances of ''
     @ [CHR 0x27] @ ''str'' @ [CHR 0x27] @ '' and ''
     @ [CHR 0x27] @ ''datetime.datetime'' @ [CHR 0x27]"

definition invalid_domain :: verdict where
  "invalid_domain = \<lparr>available = False, status = ''Invalid domain'', details = []\<rparr>"

definition excluded_verdict :: verdict where
  "excluded_verdict =
     \<lparr>available = False, status = ''Excluded domain'',
      details = [(''info'', Text ''This domain has been excluded from availability checks.'')]\<rparr>"

definition restricted_verdict :: verdict where
  "restricted_verdict =
     \<lparr>available = False, status = ''Restricted TLD (not available for general registration)'',
      details = [(''info'',
        Text ''This is a restricted domain that requires special eligibility requirements.'')]\<rparr>"

definition registered_verdict :: "whois_entry \<Rightarrow> string \<Rightarrow> verdict" where
  "registered_verdict w r =
     \<lparr>available = False, status = ''Registered'',
      details = [(''registrar'', Text r),
                 (''creation_date'', StrOfField (creation_date w)),
                 (''expiration_date'', StrOfField (expiration_date w))]\<rparr>"

definition expired_verdict :: "date \<Rightarrow> string \<Rightarrow> verdict" where
  "expired_verdict expiry r =
     \<lparr>available = True, status = ''Expired'',
      details = [(''expiration_date'', StrOfDate expiry), (''registrar'', Text r)]\<rparr>"

text \<open>
  The body of the \<open>try\<close> once \<open>whois.whois\<close> has returned \<open>w\<close>. Comparing a text with
  \<open>datetime.now()\<close> raises \<open>TypeError\<close>, which the \<open>except Exception\<close> clause turns into
  an \<open>Error: ...\<close> verdict.
\<close>

definition whois_verdict :: "datetime \<Rightarrow> whois_entry \<Rightarrow> verdict" where
  "whois_verdict now w =
     (case registrar w of
        None \<Rightarrow>
          \<lparr>available = True, status = ''Potentially available'',
           details = [(''whois'', Text (whois_str w))]\<rparr>
      | Some r \<Rightarrow>
          (if truthy_field (expiration_date w) then
             (case chosen_expiry (expiration_date w) of
                Some (DateTime t) \<Rightarrow>
                  (if t < now then expired_verdict (DateTime t) r
                   else registered_verdict w r)
              | Some (DateText s) \<Rightarrow>
                  \<lparr>available = False, status = ''Error: '' @ type_error_message,
                   details = []\<rparr>
              | None \<Rightarrow> registered_verdict w r)
           else registered_verdict w r))"

text \<open>
  A parsed page is a list of nodes: a tag with its name, attributes and children, a text,
  or a comment. Fetching an article gives a response, with its status and its parsed body,
  or raises.
\<close>

datatype html =
    Tag string "(string \<times> string) list" "html list"
  | TextNode string
  | Comment string

datatype fetch_outcome = Response int "html list" | FetchException string

text \<open>
  The outside world as one call sees it: the answers of the HTTP client, of WHOIS and of
  the resolver, the readings of the clock (one for each place that reads it), and the
  library's validation of a bracketed host in a URL. Writing a file of the store is
  taken to succeed.
\<close>

record world =
  http_head :: "string \<Rightarrow> http_outcome"
  http_get :: "string \<Rightarrow> http_outcome"
  whois_lookup :: "string \<Rightarrow> whois_outcome"
  gethostbyname :: "string \<Rightarrow> dns_outcome"
  fetch_article :: "string \<Rightarrow> fetch_outcome"
  now_result :: datetime
  now_expiry :: datetime
  now_found :: datetime
  bracketed_host_ok :: "string \<Rightarrow> bool"

text \<open>
  \<open>check_domain_availability\<close>: the verdict, or the exception that leaves the function,
  with the lookups made. An exception of \<open>gethostbyname\<close> other than \<open>gaierror\<close> is
  raised inside the \<open>except PywhoisError\<close> handler, which no clause of the same \<open>try\<close>
  catches.
\<close>

definition check_domain_availability ::
  "world \<Rightarrow> string option \<Rightarrow> (py_exception + verdict) \<times> event list" where
  "check_domain_availability w domain =
     (if falsy domain then (Inr invalid_domain, [])
      else if is_excluded_domain domain then (Inr excluded_verdict, [])
      else if is_restricted_tld domain then (Inr restricted_verdict, [])
      else
        (let d = the domain in
         case whois_lookup w d of
           WhoisFound e \<Rightarrow> (Inr (whois_verdict (now_expiry w) e), [WhoisQuery d])
         | PywhoisError \<Rightarrow>
             (case gethostbyname w d of
                DnsResolved \<Rightarrow>
                  (Inr \<lparr>available = False, status = ''DNS record exists'', details = []\<rparr>,
                   [WhoisQuery d, DnsQuery d])
              | DnsGaiError \<Rightarrow>
                  (if is_restricted_tld domain \<or> is_excluded_domain domain then
                     (Inr \<lparr>available = False, status = ''Restricted TLD or excluded domain'',
                           details = [(''info'',
                             Text ''This domain is either restricted or has been excluded.'')]\<rparr>,
                      [WhoisQuery d, DnsQuery d])
                   else
                     (Inr \<lparr>available = True, status = ''No DNS record found'', details = []\<rparr>,
                      [WhoisQuery d, DnsQuery d]))
              | DnsException m \<Rightarrow> (Inl (Raised m), [WhoisQuery d, DnsQuery d]))
         | WhoisException m \<Rightarrow>
             (Inr \<lparr>available = False, status = ''Error: '' @ m, details = []\<rparr>,
              [WhoisQuery d])))"

section \<open>URL parsing\<close>

text \<open>
  \<open>urlparse(url).netloc\<close> of the standard library (\<open>urllib.parse\<close>, version 3.11):
  \<open>None\<close> stands for the \<open>ValueError\<close> it raises. The library strips leading
  control characters and spaces, removes tabs and line breaks, takes a scheme off the front
  when the text before the first colon is one, and reads an authority only after \<open>//\<close>,
  up to the first of \<open>/\<close>, \<open>?\<close> and \<open>#\<close>. Its check of the authority under NFKC
  normalisation never fires on code points below 256. The validation of the text between
  brackets is the library's own (\<open>ipaddress\<close>); it is taken as the parameter \<open>ok\<close>.
\<close>

definition c0_control_or_space :: "char \<Rightarrow> bool" where
  "c0_control_or_space c \<longleftrightarrow> (of_char c :: nat) \<le> 32"

definition unsafe_url_byte :: "char \<Rightarrow> bool" where
  "unsafe_url_byte c \<longleftrightarrow> c = CHR 0x09 \<or> c = CHR 0x0D \<or> c = CHR 0x0A"

definition scheme_chars :: string where
  "scheme_chars =
     ''abcdefghijklmnopqrstuvwxyz'' @ ''ABCDEFGHIJKLMNOPQRSTUVWXYZ'' @ ''0123456789'' @ ''+-.''"

definition ascii_alpha :: "char \<Rightarrow> bool" where
  "ascii_alpha c \<longleftrightarrow>
     (let n = (of_char c :: nat) in (65 \<le> n \<and> n \<le> 90) \<or> (97 \<le> n \<and> n \<le> 122))"

definition clean_url :: "string \<Rightarrow> string" where
  "clean_url url = filter (\<lambda>c. \<not> unsafe_url_byte c) (dropWhile c0_control_or_space url)"

text \<open>The URL with its scheme and the colon taken off, when it has a scheme.\<close>

definition strip_scheme :: "string \<Rightarrow> string" where
  "strip_scheme url =
     (let pre = takeWhile (\<lambda>c. c \<noteq> CHR '':'') url
      in if CHR '':'' \<in> set url \<and> pre \<noteq> [] \<and> ascii_alpha (hd pre)
            \<and> list_all (\<lambda>c. c \<in> set scheme_chars) pre
         then drop (Suc (length pre)) url
         else url)"

definition netloc_delimiter :: "char \<Rightarrow> bool" where
  "netloc_delimiter c \<longleftrightarrow> c = CHR ''/'' \<or> c = CHR ''?'' \<or> c = CHR ''#''"

text \<open>\<open>netloc.partition('[')[2].partition(']')[0]\<close>.\<close>

definition bracketed_host :: "string \<Rightarrow> string" where
  "bracketed_host netloc =
     takeWhile (\<lambda>c. c \<noteq> CHR '']'') (drop 1 (dropWhile (\<lambda>c. c \<noteq> CHR ''['') netloc))"

definition urlparse_netloc :: "(string \<Rightarrow> bool) \<Rightarrow> string \<Rightarrow> string option" where
  "urlparse_netloc ok url =
     (let rest = strip_scheme (clean_url url)
      in if take 2 rest = ''//'' then
           (let netloc = takeWhile (\<lambda>c. \<not> netloc_delimiter c) (drop 2 rest);
                opening = (CHR ''['' \<in> set netloc);
                closing = (CHR '']'' \<in> set netloc)
            in if opening \<noteq> closing then None
               else if opening \<and> \<not> ok (bracketed_host netloc) then None
               else Some netloc)
         else Some [])"

definition extract_domain :: "(string \<Rightarrow> bool) \<Rightarrow> string \<Rightarrow> string option" where
  "extract_domain ok url =
     (case urlparse_netloc ok url of
        None \<Rightarrow> None
      | Some domain \<Rightarrow> Some (if startswith domain ''www.'' then drop 4 domain else domain))"

section \<open>Link extractor\<close>

text \<open>
  The parsed page is a forest of nodes. Its elements in document order, each with the path
  of child positions that leads to it; the root object of the parse has the empty path.
\<close>

fun nodes_at :: "nat list \<Rightarrow> html \<Rightarrow> (nat list \<times> html) list"
  and forest_at :: "nat list \<Rightarrow> nat \<Rightarrow> html list \<Rightarrow> (nat list \<times> html) list" where
  "nodes_at p (Tag n a cs) = (p, Tag n a cs) # forest_at p 0 cs"
| "nodes_at p (TextNode s) = [(p, TextNode s)]"
| "nodes_at p (Comment s) = [(p, Comment s)]"
| "forest_at p i [] = []"
| "forest_at p i (c # cs) = nodes_at (p @ [i]) c @ forest_at p (Suc i) cs"

definition document :: "html list \<Rightarrow> (nat list \<times> html) list" where
  "document soup = forest_at [] 0 soup"

text \<open>What \<open>find_all\<close> searches: the nodes below a node, in document order.\<close>

fun descendants :: "html \<Rightarrow> html list" where
  "descendants (Tag n a cs) = map snd (forest_at [] 0 cs)"
| "descendants (TextNode s) = []"
| "descendants (Comment s) = []"

fun is_tag :: "string \<Rightarrow> html \<Rightarrow> bool" where
  "is_tag name (Tag n a cs) = (n = name)"
| "is_tag name (TextNode s) = False"
| "is_tag name (Comment s) = False"

fun attr :: "string \<Rightarrow> html \<Rightarrow> string option" where
  "attr k (Tag n a cs) = map_of a k"
| "attr k (TextNode s) = None"
| "attr k (Comment s) = None"

definition is_space :: "char \<Rightarrow> bool" where
  "is_space c \<longleftrightarrow>
     (let n = (of_char c :: nat)
      in (9 \<le> n \<and> n \<le> 13) \<or> (28 \<le> n \<and> n \<le> 32) \<or> n = 133 \<or> n = 160)"

fun split_where :: "(char \<Rightarrow> bool) \<Rightarrow> string \<Rightarrow> string list" where
  "split_where sep [] = [[]]"
| "split_where sep (x # xs) =
     (if sep x then [] # split_where sep xs
      else (case split_where sep xs of [] \<Rightarrow> [[x]] | l # ls \<Rightarrow> (x # l) # ls))"

text \<open>The values of a \<open>class\<close> attribute: its maximal runs of non-space characters.\<close>

definition class_tokens :: "string \<Rightarrow> string list" where
  "class_tokens v = filter (\<lambda>t. t \<noteq> []) (split_where is_space v)"

text \<open>
  A tag matches \<open>{'class': cls}\<close> when \<open>cls\<close> is one of the values of its \<open>class\<close>
  attribute.
\<close>

definition has_class :: "string \<Rightarrow> html \<Rightarrow> bool" where
  "has_class cls node =
     (case attr ''class'' node of None \<Rightarrow> False | Some v \<Rightarrow> cls \<in> set (class_tokens v))"

text \<open>\<open>s.strip()\<close>, and \<open>get_text()\<close>: the texts below a node, joined; comments are left out.\<close>

definition strip :: "string \<Rightarrow> string" where
  "strip s = rev (dropWhile is_space (rev (dropWhile is_space s)))"

fun node_text :: "html \<Rightarrow> string" where
  "node_text (TextNode s) = s"
| "node_text (Tag n a cs) = []"
| "node_text (Comment s) = []"

definition get_text :: "html \<Rightarrow> string" where
  "get_text node = concat (map node_text (descendants node))"

record link =
  link_url :: string
  link_text :: string
  link_article_title :: "string option"
  link_article_url :: "string option"

text \<open>
  The body shared by the two loops over anchors: an anchor with an \<open>href\<close> that does not
  start with \<open>https://web.archive.org\<close> gives one link.
\<close>

definition anchor_links :: "html list \<Rightarrow> link list" where
  "anchor_links anchors =
     concat (map (\<lambda>a. case attr ''href'' a of
                         None \<Rightarrow> []
                       | Some url \<Rightarrow>
                           if startswith url ''https://web.archive.org'' then []
                           else [\<lparr>link_url = url, link_text = strip (get_text a),
                                  link_article_title = None, link_article_url = None\<rparr>])
                 anchors)"

definition external_anchors :: "html list \<Rightarrow> html list" where
  "external_anchors nodes = filter (\<lambda>n. is_tag ''a'' n \<and> has_class ''external'' n) nodes"

text \<open>
  The walk of the External-links section: the first \<open>span\<close> with the id, its parent, the
  first \<open>ul\<close> after the parent in document order, every \<open>li\<close> below it, every external
  anchor below each \<open>li\<close>.
\<close>

definition section_links :: "html list \<Rightarrow> link list" where
  "section_links soup =
     (let doc = document soup
      in case find (\<lambda>(p, n). is_tag ''span'' n \<and> attr ''id'' n = Some ''External_links'') doc of
           None \<Rightarrow> []
         | Some (p, ext_links_section) \<Rightarrow>
             (let parent_heading = butlast p;
                  following = (if parent_heading = [] then doc
                               else drop 1 (dropWhile (\<lambda>(q, n). q \<noteq> parent_heading) doc))
              in case find (\<lambda>(q, n). is_tag ''ul'' n) following of
                   None \<Rightarrow> []
                 | Some (q, next_ul) \<Rightarrow>
                     concat (map (\<lambda>li. anchor_links (external_anchors (descendants li)))
                                 (filter (is_tag ''li'') (descendants next_ul)))))"

definition citation_links :: "html list \<Rightarrow> link list" where
  "citation_links soup = anchor_links (external_anchors (map snd (document soup)))"

definition extract_external_links :: "html list \<Rightarrow> link list" where
  "extract_external_links soup = section_links soup @ citation_links soup"

section \<open>Liveness checker\<close>

datatype status_code = Code int | ErrorText string

text \<open>The status of one request: the code of the response, or \<open>Error: \<close> and the message.\<close>

fun status_of :: "http_outcome \<Rightarrow> status_code" where
  "status_of (StatusCode c) = Code c"
| "status_of (RequestException m) = ErrorText (''Error: '' @ m)"

text \<open>\<open>isinstance(status_code, str) or status_code >= 400\<close>.\<close>

fun is_dead :: "status_code \<Rightarrow> bool" where
  "is_dead (ErrorText m) = True"
| "is_dead (Code c) = (c \<ge> 400)"

record source_info =
  src_url :: string
  src_text :: string
  src_article_title :: string
  src_article_url :: string

record domain_record =
  dr_domain :: string
  dr_status :: string
  dr_details :: "(string \<times> detail) list"
  dr_found_on :: datetime
  dr_sources :: "source_info list"

record link_record =
  lr_url :: string
  lr_text :: string
  lr_status_code :: status_code
  lr_timestamp :: datetime
  lr_domain :: "string option"
  lr_domain_available :: "bool option"
  lr_domain_status :: "string option"
  lr_domain_details :: "(string \<times> detail) list option"
  lr_article_title :: "string option"
  lr_article_url :: "string option"

text \<open>The two maps the finder holds: \<open>self.results\<close> and \<open>self.available_domains\<close>.\<close>

record store =
  results :: "string \<rightharpoonup> link_record"
  available_domains :: "string \<rightharpoonup> domain_record"

text \<open>\<open>link.get(key, 'Unknown')\<close>.\<close>

fun get_or_unknown :: "string option \<Rightarrow> string" where
  "get_or_unknown None = ''Unknown''"
| "get_or_unknown (Some v) = v"

text \<open>The HEAD request, and the GET request when the HEAD one failed.\<close>

definition final_status :: "world \<Rightarrow> string \<Rightarrow> status_code \<times> event list" where
  "final_status w url =
     (let status_code = status_of (http_head w url)
      in if is_dead status_code then (status_of (http_get w url), [HttpHead url, HttpGet url])
         else (status_code, [HttpHead url]))"

text \<open>
  The update of \<open>self.available_domains\<close> for an available domain: the record is created
  when the domain is not a key yet, and the source is appended, and the file written,
  unless a source with the same \<open>url\<close> and \<open>article_url\<close> is there already.
\<close>

definition add_available_domain ::
  "world \<Rightarrow> store \<Rightarrow> link \<Rightarrow> string \<Rightarrow> verdict \<Rightarrow> store \<times> event list" where
  "add_available_domain w st link domain domain_info =
     (let created =
            (case available_domains st domain of
               None \<Rightarrow> \<lparr>dr_domain = domain, dr_status = status domain_info,
                         dr_details = details domain_info, dr_found_on = now_found w,
                         dr_sources = []\<rparr>
             | Some r \<Rightarrow> r);
          source = \<lparr>src_url = link_url link, src_text = link_text link,
                    src_article_title = get_or_unknown (link_article_title link),
                    src_article_url = get_or_unknown (link_article_url link)\<rparr>;
          source_exists =
            list_ex (\<lambda>s. src_url s = link_url link
                          \<and> src_article_url s = get_or_unknown (link_article_url link))
                    (dr_sources created)
      in if source_exists
         then (st\<lparr>available_domains := (available_domains st)(domain \<mapsto> created)\<rparr>, [])
         else (st\<lparr>available_domains := (available_domains st)
                     (domain \<mapsto> created\<lparr>dr_sources := dr_sources created @ [source]\<rparr>)\<rparr>,
               [SaveAvailableDomains]))"

text \<open>
  \<open>check_link_status\<close>: the record of the link, or the exception that leaves the function
  (the prober's), the store afterwards and the effects.
\<close>

definition check_link_status ::
  "world \<Rightarrow> store \<Rightarrow> link \<Rightarrow> (py_exception + link_record) \<times> store \<times> event list" where
  "check_link_status w st link =
     (let url = link_url link;
          (status_code, requests) = final_status w url;
          result = \<lparr>lr_url = url, lr_text = link_text link, lr_status_code = status_code,
                    lr_timestamp = now_result w, lr_domain = None, lr_domain_available = None,
                    lr_domain_status = None, lr_domain_details = None,
                    lr_article_title = None, lr_article_url = None\<rparr>
      in if is_dead status_code then
           (let domain = extract_domain (bracketed_host_ok w) url
            in if falsy domain then (Inr result, st, requests)
               else
                 (case check_domain_availability w domain of
                    (Inl e, lookups) \<Rightarrow> (Inl e, st, requests @ lookups)
                  | (Inr domain_info, lookups) \<Rightarrow>
                      (let result' = result\<lparr>lr_domain := domain,
                                lr_domain_available := Some (available domain_info),
                                lr_domain_status := Some (status domain_info),
                                lr_domain_details := Some (details domain_info)\<rparr>
                       in if available domain_info \<and> \<not> is_excluded_domain domain then
                            (let (st', saved) =
                                   add_available_domain w st link (the domain) domain_info
                             in (Inr result', st', requests @ lookups @ saved))
                          else (Inr result', st, requests @ lookups))))
         else (Inr result, st, requests))"

section \<open>Crawl orchestrator\<close>

text \<open>
  The checks of one article run on a pool of threads and are collected as they complete.
  The model runs them one after the other, each as one step, in the order of the list, and
  then collects the outcomes in that order: every submitted check runs to its end, also
  when the collection stops at an exception, since leaving the pool waits for all of them.
\<close>

fun check_all ::
  "world \<Rightarrow> store \<Rightarrow> link list
     \<Rightarrow> (py_exception + link_record) list \<times> store \<times> event list" where
  "check_all w st [] = ([], st, [])"
| "check_all w st (link # links) =
     (let (outcome, st1, ev1) = check_link_status w st link;
          (outcomes, st2, ev2) = check_all w st1 links
      in (outcome # outcomes, st2, ev1 @ ev2))"

definition link_id :: "string \<Rightarrow> string \<Rightarrow> string" where
  "link_id url article_url = url @ ''_'' @ article_url"

text \<open>
  The loop over the completed checks: a dead link is added to the list, stored under its
  key and the file written; the exception of a check ends the loop.
\<close>

fun collect_dead ::
  "string \<Rightarrow> string \<Rightarrow> store \<Rightarrow> link_record list \<Rightarrow> (py_exception + link_record) list
     \<Rightarrow> (py_exception + link_record list) \<times> store \<times> event list" where
  "collect_dead article_title article_url st dead_links [] = (Inr dead_links, st, [])"
| "collect_dead article_title article_url st dead_links (Inl e # outcomes) = (Inl e, st, [])"
| "collect_dead article_title article_url st dead_links (Inr result # outcomes) =
     (if is_dead (lr_status_code result) then
        (let result' = result\<lparr>lr_article_title := Some article_title,
                                lr_article_url := Some article_url\<rparr>;
             st' = st\<lparr>results := (results st)(link_id (lr_url result') article_url \<mapsto> result')\<rparr>;
             (out, st'', ev) =
               collect_dead article_title article_url st' (dead_links @ [result']) outcomes
         in (out, st'', SaveResults # ev))
      else collect_dead article_title article_url st dead_links outcomes)"

definition page_heading :: "html list \<Rightarrow> string" where
  "page_heading soup =
     (case find (\<lambda>n. is_tag ''h1'' n \<and> attr ''id'' n = Some ''firstHeading'')
                (map snd (document soup)) of
        None \<Rightarrow> ''Unknown Title''
      | Some title_elem \<Rightarrow> get_text title_elem)"

definition process_article ::
  "world \<Rightarrow> store \<Rightarrow> string \<Rightarrow> string option \<Rightarrow> link_record list \<times> store \<times> event list" where
  "process_article w st article_url article_title =
     (case fetch_article w article_url of
        FetchException m \<Rightarrow>
          ([], st, [FetchArticle article_url, StError (''Error processing article: '' @ m)])
      | Response code soup \<Rightarrow>
          if code \<noteq> 200 then
            ([], st, [FetchArticle article_url,
                      StError (''Failed to retrieve article: '' @ article_url)])
          else
            (let title = (if falsy article_title then page_heading soup else the article_title);
                 external_links =
                   map (\<lambda>l. l\<lparr>link_article_title := Some title,
                                link_article_url := Some article_url\<rparr>)
                       (extract_external_links soup);
                 (outcomes, st1, ev1) = check_all w st external_links;
                 (out, st2, ev2) = collect_dead title article_url st1 [] outcomes
             in case out of
                  Inr dead_links \<Rightarrow> (dead_links, st2, FetchArticle article_url # ev1 @ ev2)
                | Inl (Raised m) \<Rightarrow>
                    ([], st2, FetchArticle article_url # ev1 @ ev2
                              @ [StError (''Error processing article: '' @ m)])))"

record page =
  page_title :: string
  page_url :: string

text \<open>\<open>pages[:n]\<close>: a negative \<open>n\<close> counts from the end.\<close>

definition slice_to :: "int \<Rightarrow> 'a list \<Rightarrow> 'a list" where
  "slice_to n xs = (if 0 \<le> n then take (nat n) xs else take (length xs - nat (- n)) xs)"

text \<open>\<open>if max_pages:\<close> is false of \<open>None\<close> and of 0.\<close>

definition truncate_pages :: "int option \<Rightarrow> page list \<Rightarrow> page list" where
  "truncate_pages max_pages pages =
     (case max_pages of
        None \<Rightarrow> pages
      | Some n \<Rightarrow> if n \<noteq> 0 then slice_to n pages else pages)"

text \<open>
  The loop of \<open>batch_process_articles\<close> from position \<open>i\<close> on, \<open>n_pages\<close> being the length
  of the whole list: the dead links, the count of processed pages, the store, the effects.
\<close>

fun batch_loop ::
  "world \<Rightarrow> bool \<Rightarrow> nat \<Rightarrow> store \<Rightarrow> nat \<Rightarrow> page list
     \<Rightarrow> link_record list \<times> nat \<times> store \<times> event list" where
  "batch_loop w progress_bar n_pages st i [] = ([], 0, st, [])"
| "batch_loop w progress_bar n_pages st i (page # pages) =
     (let (dead_links, st1, ev1) = process_article w st (page_url page) (Some (page_title page));
          (all_dead_links, processed_count, st2, ev2) =
            batch_loop w progress_bar n_pages st1 (Suc i) pages
      in (dead_links @ all_dead_links, Suc processed_count, st2,
          StWriteProcessing (page_title page) (Suc i) n_pages # ev1
          @ (if progress_bar then [Progress (Suc i) n_pages] else []) @ [Sleep] @ ev2))"

definition batch_process_articles ::
  "world \<Rightarrow> store \<Rightarrow> page list \<Rightarrow> int option \<Rightarrow> bool
     \<Rightarrow> link_record list \<times> nat \<times> store \<times> event list" where
  "batch_process_articles w st pages max_pages progress_bar =
     (let pages' = truncate_pages max_pages pages
      in batch_loop w progress_bar (length pages') st 0 pages')"

section \<open>Result store\<close>

text \<open>
  A file of the store: its bytes decode to a text, or they do not, and then reading the
  file raises \<open>UnicodeDecodeError\<close>. The JSON decoder is a parameter: \<open>None\<close> stands for
  its \<open>JSONDecodeError\<close>. The loader returns the value read, or the empty dictionary.
\<close>

datatype file_content = FileText string | Undecodable

datatype 'v loaded = EmptyDict | Loaded 'v

definition load_json_file ::
  "string \<Rightarrow> (string \<Rightarrow> 'v option) \<Rightarrow> (string \<rightharpoonup> file_content) \<Rightarrow> string
     \<Rightarrow> (py_exception + 'v loaded) \<times> event list" where
  "load_json_file what json_loads files path =
     (case files path of
        None \<Rightarrow> (Inr EmptyDict, [])
      | Some Undecodable \<Rightarrow> (Inl (Raised ''UnicodeDecodeError''), [])
      | Some (FileText t) \<Rightarrow>
          (case json_loads t of
             None \<Rightarrow>
               (Inr EmptyDict,
                [StError (''Error loading '' @ what @ '' '' @ path @ '', creating new one'')])
           | Some v \<Rightarrow> (Inr (Loaded v), [])))"

definition load_existing_results ::
  "(string \<Rightarrow> 'v option) \<Rightarrow> (string \<rightharpoonup> file_content) \<Rightarrow> string
     \<Rightarrow> (py_exception + 'v loaded) \<times> event list" where
  "load_existing_results = load_json_file ''existing log file''"

definition load_available_domains ::
  "(string \<Rightarrow> 'v option) \<Rightarrow> (string \<rightharpoonup> file_content) \<Rightarrow> string
     \<Rightarrow> (py_exception + 'v loaded) \<times> event list" where
  "load_available_domains = load_json_file ''available domains file''"

section \<open>Observations on the effects and on the store\<close>

text \<open>The requests among the effects.\<close>

fun is_http_get :: "event \<Rightarrow> bool" where
  "is_http_get (HttpGet u) = True"
| "is_http_get e = False"

fun is_http_head :: "event \<Rightarrow> bool" where
  "is_http_head (HttpHead u) = True"
| "is_http_head e = False"

text \<open>The articles fetched, in order.\<close>

fun article_of :: "event \<Rightarrow> string list" where
  "article_of (FetchArticle u) = [u]"
| "article_of e = []"

definition fetched_articles :: "event list \<Rightarrow> string list" where
  "fetched_articles evs = concat (map article_of evs)"

text \<open>
  The sources recorded for a domain that have the \<open>url\<close> and the \<open>article_url\<close> of a
  link.
\<close>

definition matching_sources :: "store \<Rightarrow> string \<Rightarrow> link \<Rightarrow> source_info list" where
  "matching_sources st domain link =
     (case available_domains st domain of
        None \<Rightarrow> []
      | Some r \<Rightarrow>
          filter (\<lambda>s. src_url s = link_url link
                       \<and> src_article_url s = get_or_unknown (link_article_url link))
                 (dr_sources r))"

text \<open>
  A link record is eligible when, if it says that the domain is available, the domain is
  neither excluded nor restricted. The invariant of the store: no key of
  \<open>available_domains\<close> is an excluded domain, and every stored link record is eligible.
\<close>

definition eligible :: "link_record \<Rightarrow> bool" where
  "eligible r \<longleftrightarrow>
     (lr_domain_available r = Some True \<longrightarrow>
        \<not> is_excluded_domain (lr_domain r) \<and> \<not> is_restricted_tld (lr_domain r))"

definition store_invariant :: "store \<Rightarrow> bool" where
  "store_invariant st \<longleftrightarrow>
     (\<forall>d. d \<in> dom (available_domains st) \<longrightarrow> \<not> is_excluded_domain (Some d))
     \<and> (\<forall>k r. results st k = Some r \<longrightarrow> eligible r)"

section \<open>Sample inputs\<close>

text \<open>
  A world in which every request is answered with 200, WHOIS knows no domain and no name
  resolves; the worlds below change it where they say.
\<close>

definition quiet_world :: world where
  "quiet_world =
     \<lparr>http_head = (\<lambda>url. StatusCode 200), http_get = (\<lambda>url. StatusCode 200),
      whois_lookup = (\<lambda>d. PywhoisError), gethostbyname = (\<lambda>d. DnsGaiError),
      fetch_article = (\<lambda>url. Response 200 []),
      now_result = 1500, now_expiry = 1500, now_found = 1500,
      bracketed_host_ok = (\<lambda>h. True)\<rparr>"

text \<open>An article with one external link.\<close>

definition article_soup :: "html list" where
  "article_soup =
     [Tag ''div'' []
        [Tag ''a'' [(''class'', ''external text''), (''href'', ''http://www.example.com/page'')]
           [TextNode ''Example'']]]"

text \<open>Every link answers 404 to both requests, and every article is the one above.\<close>

definition dead_world :: world where
  "dead_world =
     quiet_world\<lparr>http_head := (\<lambda>url. StatusCode 404), http_get := (\<lambda>url. StatusCode 404),
                  fetch_article := (\<lambda>url. Response 200 article_soup)\<rparr>"

text \<open>Every request fails in transport.\<close>

definition unreachable_world :: world where
  "unreachable_world =
     quiet_world\<lparr>http_head := (\<lambda>url. RequestException ''No connection adapters''),
                  http_get := (\<lambda>url. RequestException ''No connection adapters'')\<rparr>"




definition empty_store :: store where
  "empty_store = \<lparr>results = Map.empty, available_domains = Map.empty\<rparr>"

definition sample_link :: link where
  "sample_link =
     \<lparr>link_url = ''http://www.example.com/page'', link_text = ''Example'',
      link_article_title = Some ''Article'',
      link_article_url = Some ''https://en.wikipedia.org/wiki/Article''\<rparr>"

text \<open>A link whose URL has no authority.\<close>

definition mailto_link :: link where
  "mailto_link =
     \<lparr>link_url = ''mailto:info@example.org'', link_text = ''Contact'',
      link_article_title = Some ''Article'',
      link_article_url = Some ''https://en.wikipedia.org/wiki/Article''\<rparr>"

text \<open>What the check of \<open>sample_link\<close> in \<open>dead_world\<close> returns and leaves in the store.\<close>

definition sample_source :: source_info where
  "sample_source =
     \<lparr>src_url = ''http://www.example.com/page'', src_text = ''Example'',
      src_article_title = ''Article'',
      src_article_url = ''https://en.wikipedia.org/wiki/Article''\<rparr>"

definition sample_record :: link_record where
  "sample_record =
     \<lparr>lr_url = ''http://www.example.com/page'', lr_text = ''Example'',
      lr_status_code = Code 404, lr_timestamp = 1500,
      lr_domain = Some ''example.com'', lr_domain_available = Some True,
      lr_domain_status = Some ''No DNS record found'', lr_domain_details = Some [],
      lr_article_title = None, lr_article_url = None\<rparr>"

definition sample_store :: store where
  "sample_store =
     \<lparr>results = Map.empty,
      available_domains =
        [''example.com'' \<mapsto>
           \<lparr>dr_domain = ''example.com'', dr_status = ''No DNS record found'',
            dr_details = [], dr_found_on = 1500, dr_sources = [sample_source]\<rparr>]\<rparr>"

text \<open>Two pages to process.\<close>

definition sample_pages :: "page list" where
  "sample_pages =
     [\<lparr>page_title = ''Alpha'', page_url = ''https://en.wikipedia.org/wiki/Alpha''\<rparr>,
      \<lparr>page_title = ''Beta'', page_url = ''https://en.wikipedia.org/wiki/Beta''\<rparr>]"

text \<open>The record and the store after the article of \<open>dead_world\<close> has been processed.\<close>

definition stored_record :: link_record where
  "stored_record =
     sample_record\<lparr>lr_article_title := Some ''Article'',
                   lr_article_url := Some ''https://en.wikipedia.org/wiki/Article''\<rparr>"

definition processed_store :: store where
  "processed_store =
     sample_store\<lparr>results :=
       [''http://www.example.com/page_https://en.wikipedia.org/wiki/Article''
          \<mapsto> stored_record]\<rparr>"

text \<open>A page whose only anchor points to the web archive over plain HTTP.\<close>

definition archive_soup :: "html list" where
  "archive_soup =
     [Tag ''p'' []
        [Tag ''a'' [(''class'', ''external text''),
                    (''href'', ''http://web.archive.org/web/2015/http://example.com/'')]
           [TextNode '' Archived copy '']]]"

text \<open>A log file whose bytes are not a text in the encoding of the platform.\<close>

definition corrupt_files :: "string \<rightharpoonup> file_content" where
  "corrupt_files = [''wikipedia_dead_links.json'' \<mapsto> Undecodable]"

section \<open>Facts about strings and the sample inputs\<close>

lemma length_split_on: "length (split_on c s) = Suc (length (filter (\<lambda>x. x = c) s))"
  by (induction s) (auto split: list.splits)

lemma single_label: "length (split_on c s) < 2 \<longleftrightarrow> c \<notin> set s"
  by (auto simp: length_split_on filter_empty_conv)

lemma lower_char_code_point:
  "(of_char (lower_char c) :: nat) =
     (let n = of_char c
      in if (65 \<le> n \<and> n \<le> 90) \<or> (192 \<le> n \<and> n \<le> 214) \<or> (216 \<le> n \<and> n \<le> 222)
         then n + 32 else n)"
proof (cases c)
  case (Char b0 b1 b2 b3 b4 b5 b6 b7)
  show ?thesis unfolding Char
    by (cases b5) (auto simp: Let_def)
qed

lemma lower_char_dot: "lower_char x = CHR ''.'' \<longleftrightarrow> x = CHR ''.''"
proof
  assume h: "lower_char x = CHR ''.''"
  have "(of_char (lower_char x) :: nat) = 46" using h by simp
  then have "(of_char x :: nat) = 46"
    by (simp add: lower_char_code_point Let_def split: if_splits)
  then have "(of_char x :: nat) = of_char CHR ''.''" by simp
  then show "x = CHR ''.''" by (simp only: of_char_eq_iff)
next
  assume "x = CHR ''.''"
  then show "lower_char x = CHR ''.''" by simp
qed

lemma dot_in_lower: "CHR ''.'' \<in> set (lower s) \<longleftrightarrow> CHR ''.'' \<in> set s"
proof -
  have "CHR ''.'' \<in> set (lower s) \<longleftrightarrow> (\<exists>x\<in>set s. lower_char x = CHR ''.'')"
    unfolding lower_def set_map by (rule iffI) (force, metis imageI)
  then show ?thesis by (simp add: lower_char_dot)
qed

lemma example_com_not_excluded: "\<not> is_excluded_domain (Some ''example.com'')"
  by (simp add: is_excluded_domain_def excluded_domain_endings_def endswith_def lower_def)

lemma example_com_not_restricted: "\<not> is_restricted_tld (Some ''example.com'')"
  by (simp add: is_restricted_tld_def restricted_top_level_def restricted_tlds_def
      lower_def last_two_def)

section \<open>Domain classifier: restricted suffixes\<close>

text \<open>
  C4, as the code has it. With the lowercased domain split at the dots:
  a domain of at least two labels whose last label is one of edu, gov, mil, int, arpa is
  restricted; a domain of at least three labels whose last two labels, joined by a dot, are
  an entry of the restricted list is restricted; a domain of exactly two labels whose last
  label is none of the five is not restricted, whatever the two labels are; and a domain
  without a dot, a single label, is never restricted.
\<close>

theorem is_restricted_tld_labels:
  "(let parts = split_on CHR ''.'' (lower d) in
     (2 \<le> length parts \<and> last parts \<in> set restricted_top_level
        \<longrightarrow> is_restricted_tld (Some d)) \<and>
     (3 \<le> length parts \<and> join_with ''.'' (last_two parts) \<in> set restricted_tlds
        \<longrightarrow> is_restricted_tld (Some d)) \<and>
     (length parts = 2 \<and> last parts \<notin> set restricted_top_level
        \<longrightarrow> \<not> is_restricted_tld (Some d))) \<and>
   (CHR ''.'' \<notin> set d \<longrightarrow> \<not> is_restricted_tld (Some d))"
proof -
  have ne: "2 \<le> length (split_on CHR ''.'' (lower d)) \<Longrightarrow> d \<noteq> []"
    by (cases d) (auto simp: lower_def)
  have single: "CHR ''.'' \<notin> set d \<Longrightarrow> length (split_on CHR ''.'' (lower d)) < 2"
    by (simp only: single_label dot_in_lower not_False_eq_True)
  show ?thesis
    using ne single by (auto simp: is_restricted_tld_def Let_def)
qed

theorem is_restricted_tld_labels_witness:
  "is_restricted_tld (Some ''Example.GOV'') \<and> is_restricted_tld (Some ''example.ac.uk'')
   \<and> \<not> is_restricted_tld (Some ''example.uk'') \<and> \<not> is_restricted_tld (Some ''localhost'')"
  using is_restricted_tld_labels [of "''Example.GOV''"]
    is_restricted_tld_labels [of "''example.ac.uk''"]
    is_restricted_tld_labels [of "''example.uk''"]
    is_restricted_tld_labels [of "''localhost''"]
  by (simp add: lower_def restricted_top_level_def restricted_tlds_def last_two_def)

text \<open>
  The domain \<open>ac.uk\<close> itself: its last two labels joined by a dot are an entry of the
  restricted list, and it is not restricted, since the second test asks for more than two
  labels.
\<close>

theorem ac_uk_itself_not_restricted:
  "join_with ''.'' (last_two (split_on CHR ''.'' (lower ''ac.uk''))) \<in> set restricted_tlds
   \<and> \<not> is_restricted_tld (Some ''ac.uk'')"
  by (simp add: is_restricted_tld_def lower_def restricted_top_level_def restricted_tlds_def
      last_two_def)

section \<open>Availability prober: the first rules\<close>

text \<open>
  C1. The rules of \<open>check_domain_availability\<close> are tried from the top and the first that
  applies decides: a \<open>None\<close> or empty domain gives \<open>Invalid domain\<close>; otherwise an excluded
  domain gives \<open>Excluded domain\<close>, and no WHOIS or DNS lookup is made; otherwise a
  restricted domain gives an unavailable verdict whose status begins with
  \<open>Restricted TLD\<close>, again without a lookup. So an excluded or restricted domain always
  gets a verdict, and never an available one.
\<close>

theorem check_domain_availability_first_match:
  "(falsy domain \<longrightarrow>
      check_domain_availability w domain =
        (Inr \<lparr>available = False, status = ''Invalid domain'', details = []\<rparr>, []))
   \<and> (\<not> falsy domain \<and> is_excluded_domain domain \<longrightarrow>
      check_domain_availability w domain =
        (Inr \<lparr>available = False, status = ''Excluded domain'',
              details = [(''info'',
                Text ''This domain has been excluded from availability checks.'')]\<rparr>, []))
   \<and> (\<not> falsy domain \<and> \<not> is_excluded_domain domain \<and> is_restricted_tld domain \<longrightarrow>
      (\<exists>v. check_domain_availability w domain = (Inr v, [])
           \<and> \<not> available v \<and> startswith (status v) ''Restricted TLD''))
   \<and> (is_excluded_domain domain \<or> is_restricted_tld domain \<longrightarrow>
      (\<exists>v. fst (check_domain_availability w domain) = Inr v \<and> \<not> available v))"
  by (simp add: check_domain_availability_def invalid_domain_def excluded_verdict_def
      restricted_verdict_def startswith_def)

theorem check_domain_availability_first_match_witness:
  "check_domain_availability dead_world None =
     (Inr \<lparr>available = False, status = ''Invalid domain'', details = []\<rparr>, [])
   \<and> check_domain_availability dead_world (Some ''example.de'') =
       (Inr \<lparr>available = False, status = ''Excluded domain'',
             details = [(''info'',
               Text ''This domain has been excluded from availability checks.'')]\<rparr>, [])
   \<and> (\<exists>v. check_domain_availability dead_world (Some ''example.gov'') = (Inr v, [])
          \<and> \<not> available v \<and> startswith (status v) ''Restricted TLD'')"
  using check_domain_availability_first_match [of None dead_world]
    check_domain_availability_first_match [of "Some ''example.de''" dead_world]
    check_domain_availability_first_match [of "Some ''example.gov''" dead_world]
  by (simp add: is_excluded_domain_def excluded_domain_endings_def endswith_def lower_def
      is_restricted_tld_def restricted_top_level_def)

section \<open>Availability prober: expiration dates\<close>




section \<open>Liveness checker: the retry and the probe\<close>

lemma sample_link_domain:
  "extract_domain (bracketed_host_ok dead_world) ''http://www.example.com/page''
     = Some ''example.com''"
  by (simp add: extract_domain_def urlparse_netloc_def clean_url_def strip_scheme_def
      c0_control_or_space_def unsafe_url_byte_def ascii_alpha_def scheme_chars_def
      netloc_delimiter_def startswith_def dead_world_def quiet_world_def)

lemma mailto_domain: "extract_domain ok ''mailto:info@example.org'' = Some []"
  by (simp add: extract_domain_def urlparse_netloc_def clean_url_def strip_scheme_def
      c0_control_or_space_def unsafe_url_byte_def ascii_alpha_def scheme_chars_def
      netloc_delimiter_def startswith_def)

lemma example_com_probe:
  "check_domain_availability dead_world (Some ''example.com'') =
     (Inr \<lparr>available = True, status = ''No DNS record found'', details = []\<rparr>,
      [WhoisQuery ''example.com'', DnsQuery ''example.com''])"
  by (simp add: check_domain_availability_def example_com_not_excluded
      example_com_not_restricted dead_world_def quiet_world_def Let_def)

lemma sample_link_checked:
  "check_link_status dead_world empty_store sample_link =
     (Inr sample_record, sample_store,
      [HttpHead ''http://www.example.com/page'', HttpGet ''http://www.example.com/page'',
       WhoisQuery ''example.com'', DnsQuery ''example.com'', SaveAvailableDomains])"
proof -
  have u: "link_url sample_link = ''http://www.example.com/page''"
    by (simp add: sample_link_def)
  have f: "final_status dead_world ''http://www.example.com/page'' =
             (Code 404, [HttpHead ''http://www.example.com/page'',
                         HttpGet ''http://www.example.com/page''])"
    by (simp add: final_status_def dead_world_def quiet_world_def)
  have a: "add_available_domain dead_world empty_store sample_link ''example.com''
             \<lparr>available = True, status = ''No DNS record found'', details = []\<rparr>
           = (sample_store, [SaveAvailableDomains])"
    by (simp add: add_available_domain_def empty_store_def sample_store_def sample_source_def
        sample_link_def dead_world_def quiet_world_def)
  have n: "now_result dead_world = 1500"
    by (simp add: dead_world_def quiet_world_def)
  have t: "link_text sample_link = ''Example''"
    by (simp add: sample_link_def)
  show ?thesis
    unfolding check_link_status_def
    by (simp add: u f sample_link_domain example_com_probe example_com_not_excluded a n t
        sample_record_def Let_def)
qed

lemma probe_makes_no_request:
  "filter is_http_get (snd (check_domain_availability w d)) = []"
  "filter is_http_head (snd (check_domain_availability w d)) = []"
  by (auto simp: check_domain_availability_def Let_def
      split: whois_outcome.splits dns_outcome.splits)

lemma add_available_domain_makes_no_request:
  "filter is_http_get (snd (add_available_domain w st l d v)) = []"
  "filter is_http_head (snd (add_available_domain w st l d v)) = []"
  by (auto simp: add_available_domain_def Let_def)

lemma final_status_requests:
  "filter is_http_head (snd (final_status w url)) = [HttpHead url]"
  "filter is_http_get (snd (final_status w url)) =
     (if is_dead (status_of (http_head w url)) then [HttpGet url] else [])"
  "fst (final_status w url) =
     (if is_dead (status_of (http_head w url)) then status_of (http_get w url)
      else status_of (http_head w url))"
  by (auto simp: final_status_def Let_def)

lemma check_link_status_events:
  "\<exists>rest. snd (snd (check_link_status w st link)) = snd (final_status w (link_url link)) @ rest
      \<and> filter is_http_get rest = [] \<and> filter is_http_head rest = []"
proof -
  let ?dom = "extract_domain (bracketed_host_ok w) (link_url link)"
  obtain s rq where fs: "final_status w (link_url link) = (s, rq)"
    by (cases "final_status w (link_url link)")
  obtain o1 lk where cd: "check_domain_availability w ?dom = (o1, lk)"
    by (cases "check_domain_availability w ?dom")
  have lk: "filter is_http_get lk = []" "filter is_http_head lk = []"
    using probe_makes_no_request [of w ?dom] cd by auto
  show ?thesis
  proof (cases o1)
    case (Inl e)
    then show ?thesis
      using fs cd lk by (auto simp: check_link_status_def Let_def)
  next
    case (Inr v)
    obtain st' sv where ad: "add_available_domain w st link (the ?dom) v = (st', sv)"
      by (cases "add_available_domain w st link (the ?dom) v")
    have sv: "filter is_http_get sv = []" "filter is_http_head sv = []"
      using add_available_domain_makes_no_request [of w st link "the ?dom" v] ad by auto
    show ?thesis
      using fs cd lk Inr ad sv by (auto simp: check_link_status_def Let_def)
  qed
qed

text \<open>
  C3, as the code has it. One HEAD request is made. If it throws or answers 400 or more,
  exactly one GET request follows and its outcome is the final status; otherwise no GET is
  made and the HEAD status is final. A returned record carries the final status. The link
  is dead when the final status is a text or a code of 400 or more; the prober is called,
  and its verdict written into the record, exactly when the link is dead and the domain
  extracted from its URL is not empty. An exception leaves the function only from the
  prober. A link that is not dead, or has no domain, leaves the store alone and causes no
  effect beyond the requests.
\<close>

theorem check_link_status_retry:
  "(let url = link_url link;
        head = status_of (http_head w url);
        final = (if is_dead head then status_of (http_get w url) else head);
        domain = extract_domain (bracketed_host_ok w) url;
        (out, st', evs) = check_link_status w st link
    in filter is_http_head evs = [HttpHead url]
       \<and> filter is_http_get evs = (if is_dead head then [HttpGet url] else [])
       \<and> (\<forall>r. out = Inr r \<longrightarrow> lr_status_code r = final)
       \<and> (\<forall>r. out = Inr r \<longrightarrow>
            ((\<exists>v. fst (check_domain_availability w domain) = Inr v
                  \<and> lr_domain r = domain
                  \<and> lr_domain_available r = Some (available v)
                  \<and> lr_domain_status r = Some (status v)
                  \<and> lr_domain_details r = Some (details v))
             \<longleftrightarrow> is_dead final \<and> \<not> falsy domain))
       \<and> (\<forall>e. out = Inl e \<longrightarrow>
            is_dead final \<and> \<not> falsy domain
            \<and> fst (check_domain_availability w domain) = Inl e)
       \<and> (\<not> (is_dead final \<and> \<not> falsy domain) \<longrightarrow>
            st' = st \<and> evs = snd (final_status w url)
            \<and> (\<exists>r. out = Inr r \<and> lr_domain r = None \<and> lr_domain_available r = None
                   \<and> lr_domain_status r = None \<and> lr_domain_details r = None)))"
proof -
  let ?url = "link_url link"
  let ?dom = "extract_domain (bracketed_host_ok w) ?url"
  let ?c = "check_link_status w st link"
  obtain rest where rest: "snd (snd ?c) = snd (final_status w ?url) @ rest"
      "filter is_http_get rest = []" "filter is_http_head rest = []"
    using check_link_status_events by blast
  have ev: "filter is_http_head (snd (snd ?c)) = [HttpHead ?url]"
     "filter is_http_get (snd (snd ?c)) =
        (if is_dead (status_of (http_head w ?url)) then [HttpGet ?url] else [])"
    using rest final_status_requests [of w ?url] by auto
  obtain s rq where fs: "final_status w ?url = (s, rq)"
    by (cases "final_status w ?url")
  have s: "s = (if is_dead (status_of (http_head w ?url)) then status_of (http_get w ?url)
                else status_of (http_head w ?url))"
    using final_status_requests(3) [of w ?url] fs by simp
  obtain o1 lk where cd: "check_domain_availability w ?dom = (o1, lk)"
    by (cases "check_domain_availability w ?dom")
  have body: "(\<forall>r. fst ?c = Inr r \<longrightarrow> lr_status_code r = s)
       \<and> (\<forall>r. fst ?c = Inr r \<longrightarrow>
            ((\<exists>v. o1 = Inr v \<and> lr_domain r = ?dom
                  \<and> lr_domain_available r = Some (available v)
                  \<and> lr_domain_status r = Some (status v)
                  \<and> lr_domain_details r = Some (details v))
             \<longleftrightarrow> is_dead s \<and> \<not> falsy ?dom))
       \<and> (\<forall>e. fst ?c = Inl e \<longrightarrow> is_dead s \<and> \<not> falsy ?dom \<and> o1 = Inl e)
       \<and> (\<not> (is_dead s \<and> \<not> falsy ?dom) \<longrightarrow>
            fst (snd ?c) = st \<and> snd (snd ?c) = rq
            \<and> (\<exists>r. fst ?c = Inr r \<and> lr_domain r = None \<and> lr_domain_available r = None
                   \<and> lr_domain_status r = None \<and> lr_domain_details r = None))"
    using fs cd
    by (cases o1) (auto simp: check_link_status_def Let_def split: prod.splits)
  show ?thesis
    using ev body s fs cd
    by (simp add: Let_def split_beta)
qed

theorem check_link_status_retry_witness:
  "(\<exists>r st evs. check_link_status dead_world empty_store sample_link = (Inr r, st, evs)
      \<and> filter is_http_head evs = [HttpHead ''http://www.example.com/page'']
      \<and> filter is_http_get evs = [HttpGet ''http://www.example.com/page'']
      \<and> lr_status_code r = Code 404
      \<and> lr_domain r = Some ''example.com''
      \<and> lr_domain_available r = Some True
      \<and> lr_domain_status r = Some ''No DNS record found'')"
proof -
  have u: "link_url sample_link = ''http://www.example.com/page''"
    by (simp add: sample_link_def)
  have h: "http_head dead_world ''http://www.example.com/page'' = StatusCode 404"
     "http_get dead_world ''http://www.example.com/page'' = StatusCode 404"
    by (simp_all add: dead_world_def quiet_world_def)
  show ?thesis
    using check_link_status_retry [of sample_link dead_world empty_store]
    by (simp add: sample_link_checked u h sample_link_domain example_com_probe)
qed

text \<open>
  A link to \<open>mailto:info@example.org\<close> on which both requests fail: its final status is a
  text, so it is dead, and the record carries no verdict and no lookup is made, since the
  URL has no authority and the prober is not called.
\<close>

theorem dead_link_without_probe:
  "check_link_status unreachable_world empty_store mailto_link =
     (Inr \<lparr>lr_url = ''mailto:info@example.org'', lr_text = ''Contact'',
           lr_status_code = ErrorText ''Error: No connection adapters'',
           lr_timestamp = 1500, lr_domain = None, lr_domain_available = None,
           lr_domain_status = None, lr_domain_details = None,
           lr_article_title = None, lr_article_url = None\<rparr>,
      empty_store,
      [HttpHead ''mailto:info@example.org'', HttpGet ''mailto:info@example.org''])
   \<and> is_dead (ErrorText ''Error: No connection adapters'')"
  by (simp add: check_link_status_def final_status_def mailto_link_def unreachable_world_def
      quiet_world_def mailto_domain Let_def)

section \<open>Domain classifier: the domain of a URL\<close>

lemma clean_url_http:
  assumes "\<forall>c\<in>set host. \<not> unsafe_url_byte c"
  shows "clean_url (''http://'' @ host @ ''/'' @ path) =
           ''http://'' @ host @ ''/'' @ filter (\<lambda>c. \<not> unsafe_url_byte c) path"
  using assms
  by (simp add: clean_url_def c0_control_or_space_def unsafe_url_byte_def filter_id_conv)

lemma strip_scheme_http: "strip_scheme (''http://'' @ rest) = ''//'' @ rest"
  by (simp add: strip_scheme_def ascii_alpha_def scheme_chars_def)

text \<open>
  C7, as the code has it. \<open>extract_domain\<close> returns \<open>None\<close> for a URL on which the parser
  raises. For a URL in which no \<open>//\<close> follows the optional scheme, which has no authority,
  it returns the empty string, not \<open>None\<close>. Whenever the parser returns an authority, the
  result is that authority without a leading \<open>www.\<close>; so for \<open>http://host/path\<close>, where
  the host has no delimiter, bracket, tab or line break, it is the host without a leading
  \<open>www.\<close>.
\<close>

theorem extract_domain_cases:
  "(urlparse_netloc ok url = None \<longrightarrow> extract_domain ok url = None)
   \<and> (take 2 (strip_scheme (clean_url url)) \<noteq> ''//'' \<longrightarrow> extract_domain ok url = Some [])
   \<and> (\<forall>netloc. urlparse_netloc ok url = Some netloc \<longrightarrow>
        extract_domain ok url =
          Some (if startswith netloc ''www.'' then drop 4 netloc else netloc))
   \<and> ((\<forall>c\<in>set host. \<not> unsafe_url_byte c \<and> \<not> netloc_delimiter c
                       \<and> c \<noteq> CHR ''['' \<and> c \<noteq> CHR '']'') \<longrightarrow>
        extract_domain ok (''http://'' @ host @ ''/'' @ path) =
          Some (if startswith host ''www.'' then drop 4 host else host))"
proof -
  have a: "urlparse_netloc ok url = None \<longrightarrow> extract_domain ok url = None"
    by (simp add: extract_domain_def)
  have b: "take 2 (strip_scheme (clean_url url)) \<noteq> ''//'' \<longrightarrow> extract_domain ok url = Some []"
    by (simp add: extract_domain_def urlparse_netloc_def Let_def startswith_def)
  have c: "\<forall>netloc. urlparse_netloc ok url = Some netloc \<longrightarrow>
        extract_domain ok url =
          Some (if startswith netloc ''www.'' then drop 4 netloc else netloc)"
    by (simp add: extract_domain_def)
  have d: "extract_domain ok (''http://'' @ host @ ''/'' @ path) =
          Some (if startswith host ''www.'' then drop 4 host else host)"
    if h: "\<forall>c\<in>set host. \<not> unsafe_url_byte c \<and> \<not> netloc_delimiter c
                       \<and> c \<noteq> CHR ''['' \<and> c \<noteq> CHR '']''"
  proof -
    let ?p = "filter (\<lambda>c. \<not> unsafe_url_byte c) path"
    have 1: "strip_scheme (clean_url (''http://'' @ host @ ''/'' @ path))
               = ''//'' @ host @ ''/'' @ ?p"
    proof -
      have "\<forall>c\<in>set host. \<not> unsafe_url_byte c"
        using h by blast
      then have "clean_url (''http://'' @ host @ ''/'' @ path) = ''http://'' @ host @ ''/'' @ ?p"
        by (rule clean_url_http)
      then show ?thesis
        using strip_scheme_http [of "host @ ''/'' @ ?p"] by simp
    qed
    have 2: "takeWhile (\<lambda>c. \<not> netloc_delimiter c) (host @ ''/'' @ ?p) = host"
      using h by (simp add: netloc_delimiter_def)
    have 3: "CHR ''['' \<notin> set host" "CHR '']'' \<notin> set host"
      using h by auto
    have "urlparse_netloc ok (''http://'' @ host @ ''/'' @ path) = Some host"
      unfolding urlparse_netloc_def 1 using 2 3 by (simp add: Let_def)
    then show ?thesis
      by (simp add: extract_domain_def)
  qed
  show ?thesis
    using a b c d by blast
qed

theorem extract_domain_cases_witness:
  "extract_domain (bracketed_host_ok quiet_world) ''http://[::1/index'' = None
   \<and> extract_domain (bracketed_host_ok quiet_world) ''example.com/page'' = Some []
   \<and> extract_domain (bracketed_host_ok quiet_world) ''http://www.example.com/page''
       = Some ''example.com''"
  using extract_domain_cases
          [where ok = "bracketed_host_ok quiet_world" and url = "''http://[::1/index''"
             and host = "''www.example.com''" and path = "''page''"]
        extract_domain_cases
          [where ok = "bracketed_host_ok quiet_world" and url = "''example.com/page''"
             and host = "''www.example.com''" and path = "''page''"]
  by (simp add: urlparse_netloc_def clean_url_def strip_scheme_def c0_control_or_space_def
      unsafe_url_byte_def ascii_alpha_def scheme_chars_def netloc_delimiter_def
      startswith_def)

text \<open>
  The text \<open>not a url\<close> has no authority: the result is the empty string, and not \<open>None\<close>.
\<close>

theorem no_authority_gives_empty_string:
  "extract_domain (bracketed_host_ok quiet_world) ''not a url'' = Some []
   \<and> extract_domain (bracketed_host_ok quiet_world) ''not a url'' \<noteq> None"
  by (simp add: extract_domain_def urlparse_netloc_def clean_url_def strip_scheme_def
      c0_control_or_space_def unsafe_url_byte_def ascii_alpha_def scheme_chars_def
      netloc_delimiter_def startswith_def)

section \<open>Link extractor: links to the web archive\<close>

lemma anchor_links_skip_https_archive:
  "l \<in> set (anchor_links anchors) \<Longrightarrow> \<not> startswith (link_url l) ''https://web.archive.org''"
  by (auto simp: anchor_links_def split: option.splits if_splits)

text \<open>
  What the test of the code does skip: no link of the result has a URL that starts with
  \<open>https://web.archive.org\<close>.
\<close>

lemma https_archive_links_skipped:
  "l \<in> set (extract_external_links soup)
     \<Longrightarrow> \<not> startswith (link_url l) ''https://web.archive.org''"
  by (auto simp: extract_external_links_def section_links_def citation_links_def Let_def
      split: option.splits dest: anchor_links_skip_https_archive)

text \<open>
  C8 at an anchor that points to the web archive over plain HTTP: the anchor is in the
  result, since only URLs that start with \<open>https://web.archive.org\<close> are skipped.
\<close>

theorem http_archive_link_extracted:
  "extract_external_links archive_soup =
     [\<lparr>link_url = ''http://web.archive.org/web/2015/http://example.com/'',
       link_text = ''Archived copy'', link_article_title = None, link_article_url = None\<rparr>]"
  by (simp add: extract_external_links_def section_links_def citation_links_def document_def
      archive_soup_def anchor_links_def external_anchors_def has_class_def class_tokens_def
      is_space_def startswith_def strip_def get_text_def)

section \<open>Result store: loading\<close>

text \<open>
  What the loader handles: a missing file gives the empty dictionary, and a text that the
  JSON decoder rejects gives one reported error and the empty dictionary.
\<close>

lemma load_existing_results_handled:
  "files path = None \<Longrightarrow> load_existing_results json_loads files path = (Inr EmptyDict, [])"
  "files path = Some (FileText t) \<Longrightarrow> json_loads t = None \<Longrightarrow>
     load_existing_results json_loads files path =
       (Inr EmptyDict,
        [StError (''Error loading existing log file '' @ path @ '', creating new one'')])"
  by (simp_all add: load_existing_results_def load_json_file_def)

text \<open>
  C9 at a file whose bytes do not decode: the exception of the read leaves the loader, and
  no error is reported, whatever the JSON decoder is.
\<close>

theorem undecodable_file_escapes_loader:
  "load_existing_results json_loads corrupt_files ''wikipedia_dead_links.json'' =
     (Inl (Raised ''UnicodeDecodeError''), [])"
  by (simp add: load_existing_results_def load_json_file_def corrupt_files_def)

section \<open>Crawl orchestrator: truncation of the batch\<close>

lemma probe_fetches_nothing: "fetched_articles (snd (check_domain_availability w d)) = []"
  by (auto simp: fetched_articles_def check_domain_availability_def Let_def
      split: whois_outcome.splits dns_outcome.splits)

lemma fetched_append: "fetched_articles (xs @ ys) = fetched_articles xs @ fetched_articles ys"
  by (simp add: fetched_articles_def)

lemma fetched_Cons: "fetched_articles (e # ys) = article_of e @ fetched_articles ys"
  by (simp add: fetched_articles_def)

lemma fetched_Nil: "fetched_articles [] = []"
  by (simp add: fetched_articles_def)

lemma check_link_status_fetches_nothing:
  "fetched_articles (snd (snd (check_link_status w st link))) = []"
proof -
  let ?dom = "extract_domain (bracketed_host_ok w) (link_url link)"
  obtain o1 lk where cd: "check_domain_availability w ?dom = (o1, lk)"
    by (cases "check_domain_availability w ?dom")
  have lk: "fetched_articles lk = []"
    using probe_fetches_nothing [of w ?dom] cd by simp
  show ?thesis
    using cd lk
    by (cases o1)
       (auto simp: check_link_status_def final_status_def add_available_domain_def Let_def
          fetched_append fetched_Cons fetched_Nil split: prod.splits)
qed

lemma check_all_fetches_nothing:
  "fetched_articles (snd (snd (check_all w st links))) = []"
proof (induction links arbitrary: st)
  case Nil
  show ?case by (simp add: fetched_Nil)
next
  case (Cons link links)
  show ?case
    using check_link_status_fetches_nothing [of w st link] Cons.IH
    by (simp add: fetched_append split: prod.splits) (metis snd_conv)
qed

lemma collect_dead_fetches_nothing:
  "fetched_articles (snd (snd (collect_dead t u st dead outcomes))) = []"
proof (induction t u st dead outcomes rule: collect_dead.induct)
  case (1 t u st dead)
  show ?case by (simp add: fetched_Nil)
next
  case (2 t u st dead e outcomes)
  show ?case by (simp add: fetched_Nil)
next
  case (3 t u st dead result outcomes)
  show ?case
    using 3 by (auto simp: Let_def fetched_Cons split: prod.splits)
qed

lemma process_article_fetches:
  "fetched_articles (snd (snd (process_article w st u t))) = [u]"
proof -
  show ?thesis
    unfolding process_article_def
    using check_all_fetches_nothing collect_dead_fetches_nothing
    apply (auto simp: Let_def fetched_Cons fetched_append fetched_Nil split: fetch_outcome.splits prod.splits sum.splits py_exception.splits)
    apply (metis snd_conv)+
    done
qed

lemma batch_loop_count_and_fetches:
  "fst (snd (batch_loop w pb n st i pages)) = length pages
   \<and> fetched_articles (snd (snd (snd (batch_loop w pb n st i pages)))) = map page_url pages"
proof (induction pages arbitrary: st i)
  case Nil
  show ?case by (simp add: fetched_Nil)
next
  case (Cons page pages)
  show ?case
    using process_article_fetches [of w st "page_url page" "Some (page_title page)"] Cons.IH
    apply (auto simp: Let_def fetched_Cons fetched_append fetched_Nil split: prod.splits)
    apply (metis fst_conv snd_conv)+
    done
qed

text \<open>
  C10. With \<open>max_pages\<close> equal to 0, as with \<open>None\<close>, the list is not truncated: every
  page is fetched, in order, and the count returned is the length of the list; the two
  calls are the same. A positive \<open>max_pages\<close> keeps the first \<open>max_pages\<close> pages, a
  negative one drops that many from the end, and fewer pages than the list has are
  processed only when \<open>max_pages\<close> is a number other than 0.
\<close>

theorem batch_process_articles_truncation:
  "(let (all_dead_links, processed_count, st', evs) =
          batch_process_articles w st pages max_pages progress_bar
    in (max_pages = None \<or> max_pages = Some 0 \<longrightarrow>
          processed_count = length pages \<and> fetched_articles evs = map page_url pages)
       \<and> (\<forall>n. max_pages = Some n \<and> 0 < n \<longrightarrow>
            processed_count = min (nat n) (length pages)
            \<and> fetched_articles evs = map page_url (take (nat n) pages))
       \<and> (\<forall>n. max_pages = Some n \<and> n < 0 \<longrightarrow>
            processed_count = length pages - nat (- n)
            \<and> fetched_articles evs = map page_url (take (length pages - nat (- n)) pages))
       \<and> (processed_count < length pages \<longrightarrow> (\<exists>n. max_pages = Some n \<and> n \<noteq> 0)))
   \<and> batch_process_articles w st pages (Some 0) progress_bar
       = batch_process_articles w st pages None progress_bar"
proof -
  let ?ps = "truncate_pages max_pages pages"
  let ?r = "batch_process_articles w st pages max_pages progress_bar"
  have cnt: "fst (snd ?r) = length ?ps"
    and fetched: "fetched_articles (snd (snd (snd ?r))) = map page_url ?ps"
    using batch_loop_count_and_fetches [of w progress_bar "length ?ps" st 0 ?ps]
    by (simp_all add: batch_process_articles_def Let_def)
  have t1: "max_pages = None \<or> max_pages = Some 0 \<Longrightarrow> ?ps = pages"
    by (auto simp: truncate_pages_def)
  have t2: "\<And>n. max_pages = Some n \<Longrightarrow> 0 < n \<Longrightarrow> ?ps = take (nat n) pages"
    by (auto simp: truncate_pages_def slice_to_def)
  have t3: "\<And>n. max_pages = Some n \<Longrightarrow> n < 0 \<Longrightarrow> ?ps = take (length pages - nat (- n)) pages"
    by (auto simp: truncate_pages_def slice_to_def)
  have t4: "length ?ps < length pages \<Longrightarrow> \<exists>n. max_pages = Some n \<and> n \<noteq> 0"
    by (cases max_pages) (auto simp: truncate_pages_def split: if_splits)
  have same: "batch_process_articles w st pages (Some 0) progress_bar
       = batch_process_articles w st pages None progress_bar"
    by (simp add: batch_process_articles_def truncate_pages_def)
  have main: "(max_pages = None \<or> max_pages = Some 0 \<longrightarrow>
          fst (snd ?r) = length pages
          \<and> fetched_articles (snd (snd (snd ?r))) = map page_url pages)
       \<and> (\<forall>n. max_pages = Some n \<and> 0 < n \<longrightarrow>
            fst (snd ?r) = min (nat n) (length pages)
            \<and> fetched_articles (snd (snd (snd ?r))) = map page_url (take (nat n) pages))
       \<and> (\<forall>n. max_pages = Some n \<and> n < 0 \<longrightarrow>
            fst (snd ?r) = length pages - nat (- n)
            \<and> fetched_articles (snd (snd (snd ?r)))
                = map page_url (take (length pages - nat (- n)) pages))
       \<and> (fst (snd ?r) < length pages \<longrightarrow> (\<exists>n. max_pages = Some n \<and> n \<noteq> 0))"
    unfolding cnt fetched
  proof (intro conjI allI impI)
    assume "max_pages = None \<or> max_pages = Some 0"
    then show "length ?ps = length pages" "map page_url ?ps = map page_url pages"
      using t1 by simp_all
  next
    fix n assume "max_pages = Some n \<and> 0 < n"
    then have "?ps = take (nat n) pages" using t2 by blast
    then show "length ?ps = min (nat n) (length pages)"
      "map page_url ?ps = map page_url (take (nat n) pages)"
      by (simp_all add: min.commute)
  next
    fix n assume "max_pages = Some n \<and> n < 0"
    then have "?ps = take (length pages - nat (- n)) pages" using t3 by blast
    then show "length ?ps = length pages - nat (- n)"
      "map page_url ?ps = map page_url (take (length pages - nat (- n)) pages)"
      by simp_all
  next
    assume "length ?ps < length pages"
    then show "\<exists>n. max_pages = Some n \<and> n \<noteq> 0"
      using t4 by simp
  qed
  show ?thesis
    using main same by (simp add: split_beta)
qed

theorem batch_process_articles_truncation_witness:
  "fst (snd (batch_process_articles quiet_world empty_store sample_pages (Some 0) False)) = 2
   \<and> fetched_articles
        (snd (snd (snd (batch_process_articles quiet_world empty_store sample_pages (Some 0) False))))
      = [''https://en.wikipedia.org/wiki/Alpha'', ''https://en.wikipedia.org/wiki/Beta'']
   \<and> fst (snd (batch_process_articles quiet_world empty_store sample_pages (Some 1) False)) = 1
   \<and> fetched_articles
        (snd (snd (snd (batch_process_articles quiet_world empty_store sample_pages (Some 1) False))))
      = [''https://en.wikipedia.org/wiki/Alpha'']"
proof -
  let ?zero = "batch_process_articles quiet_world empty_store sample_pages (Some 0) False"
  let ?one = "batch_process_articles quiet_world empty_store sample_pages (Some 1) False"
  have "fst (snd ?zero) = length sample_pages
        \<and> fetched_articles (snd (snd (snd ?zero))) = map page_url sample_pages"
    using conjunct1 [OF batch_process_articles_truncation
                          [of quiet_world empty_store sample_pages "Some 0" False]]
    by (simp add: split_beta)
  moreover have "fst (snd ?one) = min (nat 1) (length sample_pages)
        \<and> fetched_articles (snd (snd (snd ?one))) = map page_url (take (nat 1) sample_pages)"
    using conjunct1 [OF batch_process_articles_truncation
                          [of quiet_world empty_store sample_pages "Some 1" False]]
    by (simp add: split_beta)
  ultimately show ?thesis
    by (simp add: sample_pages_def)
qed

section \<open>Liveness checker: sources of an available domain\<close>

lemma available_verdict_eligible:
  assumes "check_domain_availability w domain = (Inr v, lk)" "available v"
  shows "\<not> falsy domain \<and> \<not> is_excluded_domain domain \<and> \<not> is_restricted_tld domain"
  using assms
  by (auto simp: check_domain_availability_def invalid_domain_def excluded_verdict_def
      restricted_verdict_def split: if_splits)

lemma urlparse_netloc_same:
  "urlparse_netloc ok1 url = Some a \<Longrightarrow> urlparse_netloc ok2 url = Some b \<Longrightarrow> a = b"
  by (auto simp: urlparse_netloc_def Let_def split: if_splits)

lemma extract_domain_same:
  "extract_domain ok1 url = Some a \<Longrightarrow> extract_domain ok2 url = Some b \<Longrightarrow> a = b"
  using urlparse_netloc_same [of ok1 url _ ok2]
  by (auto simp: extract_domain_def split: option.splits)

lemma source_exists_iff:
  "list_ex P xs \<longleftrightarrow> filter P xs \<noteq> []"
  by (induction xs) auto

lemma add_available_domain_sources:
  "matching_sources (fst (add_available_domain w st link d v)) d link =
     (if matching_sources st d link = []
      then [\<lparr>src_url = link_url link, src_text = link_text link,
             src_article_title = get_or_unknown (link_article_title link),
             src_article_url = get_or_unknown (link_article_url link)\<rparr>]
      else matching_sources st d link)"
  by (auto simp: add_available_domain_def matching_sources_def Let_def source_exists_iff
      split: option.splits)

lemma add_available_domain_again:
  assumes "matching_sources st d link \<noteq> []"
  shows "add_available_domain w st link d v = (st, [])"
proof -
  obtain r where r: "available_domains st d = Some r"
    using assms by (auto simp: matching_sources_def split: option.splits)
  have m: "(available_domains st)(d \<mapsto> r) = available_domains st"
    using r by (simp add: map_upd_triv)
  show ?thesis
    using assms r m
    by (simp add: add_available_domain_def matching_sources_def Let_def source_exists_iff)
qed

lemma add_available_domain_keeps_record:
  assumes "available_domains st d = Some r"
  shows "\<exists>r'. available_domains (fst (add_available_domain w st link d v)) d = Some r'
          \<and> dr_domain r' = dr_domain r \<and> dr_status r' = dr_status r
          \<and> dr_details r' = dr_details r \<and> dr_found_on r' = dr_found_on r"
  using assms by (simp add: add_available_domain_def Let_def)

lemma check_link_status_store:
  "fst (snd (check_link_status w st link)) = st
   \<or> (\<exists>d v lk. extract_domain (bracketed_host_ok w) (link_url link) = Some d
         \<and> check_domain_availability w (Some d) = (Inr v, lk) \<and> available v
         \<and> fst (snd (check_link_status w st link)) = fst (add_available_domain w st link d v))"
proof -
  let ?dom = "extract_domain (bracketed_host_ok w) (link_url link)"
  obtain o1 lk where cd: "check_domain_availability w ?dom = (o1, lk)"
    by (cases "check_domain_availability w ?dom")
  show ?thesis
  proof (cases ?dom)
    case None
    then show ?thesis by (simp add: check_link_status_def Let_def split: prod.splits)
  next
    case (Some d)
    show ?thesis
      using cd Some
      by (cases o1) (auto simp: check_link_status_def Let_def split: prod.splits)
  qed
qed

lemma check_link_status_available:
  assumes "check_link_status w st link = (Inr r, st', evs)" "lr_domain_available r = Some True"
  shows "\<exists>d v lk. lr_domain r = Some d
         \<and> extract_domain (bracketed_host_ok w) (link_url link) = Some d
         \<and> check_domain_availability w (Some d) = (Inr v, lk) \<and> available v
         \<and> st' = fst (add_available_domain w st link d v)"
proof -
  let ?dom = "extract_domain (bracketed_host_ok w) (link_url link)"
  obtain o1 lk where cd: "check_domain_availability w ?dom = (o1, lk)"
    by (cases "check_domain_availability w ?dom")
  show ?thesis
  proof (cases ?dom)
    case None
    then show ?thesis using assms by (auto simp: check_link_status_def Let_def split: prod.splits if_splits)
  next
    case (Some d)
    have el: "\<And>v. o1 = Inr v \<Longrightarrow> available v \<Longrightarrow> \<not> is_excluded_domain (Some d)"
      using available_verdict_eligible [of w "Some d" _ lk] cd Some by auto
    show ?thesis
      using cd Some assms el
      by (cases o1) (auto simp: check_link_status_def Let_def split: prod.splits if_splits)
  qed
qed

lemma probe_saves_nothing: "SaveAvailableDomains \<notin> set (snd (check_domain_availability w d))"
  by (auto simp: check_domain_availability_def Let_def
      split: whois_outcome.splits dns_outcome.splits)

lemma final_status_saves_nothing: "SaveAvailableDomains \<notin> set (snd (final_status w url))"
  by (simp add: final_status_def Let_def)

lemma check_link_status_saves:
  "(fst (snd (check_link_status w st link)) = st
      \<and> SaveAvailableDomains \<notin> set (snd (snd (check_link_status w st link))))
   \<or> (\<exists>d v lk. extract_domain (bracketed_host_ok w) (link_url link) = Some d
         \<and> check_domain_availability w (Some d) = (Inr v, lk) \<and> available v
         \<and> fst (snd (check_link_status w st link)) = fst (add_available_domain w st link d v)
         \<and> (snd (add_available_domain w st link d v) = []
              \<longrightarrow> SaveAvailableDomains \<notin> set (snd (snd (check_link_status w st link)))))"
proof -
  let ?dom = "extract_domain (bracketed_host_ok w) (link_url link)"
  obtain o1 lk where cd: "check_domain_availability w ?dom = (o1, lk)"
    by (cases "check_domain_availability w ?dom")
  obtain s rq where fs: "final_status w (link_url link) = (s, rq)"
    by (cases "final_status w (link_url link)")
  have lk: "SaveAvailableDomains \<notin> set lk"
    using probe_saves_nothing [of w ?dom] cd by simp
  have rq: "SaveAvailableDomains \<notin> set rq"
    using final_status_saves_nothing [of w "link_url link"] fs by simp
  show ?thesis
  proof (cases ?dom)
    case None
    then show ?thesis using fs rq by (simp add: check_link_status_def Let_def split: prod.splits)
  next
    case (Some d)
    show ?thesis
      using cd Some fs rq lk
      by (cases o1) (auto simp: check_link_status_def Let_def split: prod.splits)
  qed
qed

text \<open>
  The store never gets a second source with the \<open>url\<close> and \<open>article_url\<close> of a link:
  if no domain has two for any link, no domain has after a check.
\<close>

lemma check_link_status_no_duplicates:
  assumes "\<forall>d l. length (matching_sources st d l) \<le> 1"
  shows "\<forall>d l. length (matching_sources (fst (snd (check_link_status w st link))) d l) \<le> 1"
proof -
  have add: "length (matching_sources (fst (add_available_domain w st link d0 v)) d l) \<le> 1"
    for d0 v d l
  proof (cases "d = d0")
    case False
    then show ?thesis
      using assms by (auto simp: add_available_domain_def matching_sources_def Let_def)
  next
    case True
    show ?thesis
      using assms [rule_format, of d0 l] assms [rule_format, of d0 link] True
      by (auto simp: add_available_domain_def matching_sources_def Let_def source_exists_iff
          split: option.splits)
  qed
  show ?thesis
    using check_link_status_store [of w st link] assms add by auto
qed

lemma sample_link_checked_again:
  "check_link_status dead_world sample_store sample_link =
     (Inr sample_record, sample_store,
      [HttpHead ''http://www.example.com/page'', HttpGet ''http://www.example.com/page'',
       WhoisQuery ''example.com'', DnsQuery ''example.com''])"
proof -
  have u: "link_url sample_link = ''http://www.example.com/page''"
    by (simp add: sample_link_def)
  have f: "final_status dead_world ''http://www.example.com/page'' =
             (Code 404, [HttpHead ''http://www.example.com/page'',
                         HttpGet ''http://www.example.com/page''])"
    by (simp add: final_status_def dead_world_def quiet_world_def)
  have a: "add_available_domain dead_world sample_store sample_link ''example.com''
             \<lparr>available = True, status = ''No DNS record found'', details = []\<rparr>
           = (sample_store, [])"
    by (rule add_available_domain_again)
       (simp add: matching_sources_def sample_store_def sample_source_def sample_link_def)
  have n: "now_result dead_world = 1500"
    by (simp add: dead_world_def quiet_world_def)
  have t: "link_text sample_link = ''Example''"
    by (simp add: sample_link_def)
  show ?thesis
    unfolding check_link_status_def
    by (simp add: u f sample_link_domain example_com_probe example_com_not_excluded a n t
        sample_record_def Let_def)
qed

text \<open>
  C5. A link is checked, found dead, and its domain \<open>d\<close> found available, in a store that
  holds at most one source for \<open>d\<close> with the \<open>url\<close> and \<open>article_url\<close> of the link. Then
  the store holds exactly one such source for \<open>d\<close>, and checking the same link again, in
  any world, leaves the store as it is and does not write the file: exactly one such
  source, not two. A record that \<open>d\<close> had before the first check keeps its domain, status,
  details and date of discovery: the record is created only when the domain is not a key.
\<close>

theorem same_dead_link_twice:
  assumes first: "check_link_status w1 st link = (Inr r1, st1, ev1)"
    and avail: "lr_domain_available r1 = Some True"
    and dom: "lr_domain r1 = Some d"
    and nodup: "length (matching_sources st d link) \<le> 1"
    and second: "check_link_status w2 st1 link = (out2, st2, ev2)"
  shows "length (matching_sources st1 d link) = 1
         \<and> length (matching_sources st2 d link) = 1
         \<and> st2 = st1
         \<and> SaveAvailableDomains \<notin> set ev2
         \<and> (\<forall>rec. available_domains st d = Some rec \<longrightarrow>
              (\<exists>rec'. available_domains st2 d = Some rec'
                 \<and> dr_domain rec' = dr_domain rec \<and> dr_status rec' = dr_status rec
                 \<and> dr_details rec' = dr_details rec \<and> dr_found_on rec' = dr_found_on rec))"
proof -
  obtain v lk where d: "extract_domain (bracketed_host_ok w1) (link_url link) = Some d"
    and st1: "st1 = fst (add_available_domain w1 st link d v)"
    using check_link_status_available [OF first avail] dom by auto
  have m1: "length (matching_sources st1 d link) = 1"
    using nodup unfolding st1 add_available_domain_sources
    by (cases "matching_sources st d link") auto
  then have ne: "matching_sources st1 d link \<noteq> []" by auto
  have again: "\<And>w' v'. add_available_domain w' st1 link d v' = (st1, [])"
    using add_available_domain_again [OF ne] .
  have snd_run: "st2 = st1 \<and> SaveAvailableDomains \<notin> set ev2"
    using check_link_status_saves [of w2 st1 link] second again
      extract_domain_same [OF d] by auto
  have keep: "\<forall>rec. available_domains st d = Some rec \<longrightarrow>
              (\<exists>rec'. available_domains st1 d = Some rec'
                 \<and> dr_domain rec' = dr_domain rec \<and> dr_status rec' = dr_status rec
                 \<and> dr_details rec' = dr_details rec \<and> dr_found_on rec' = dr_found_on rec)"
    unfolding st1 using add_available_domain_keeps_record by blast
  show ?thesis
    using m1 snd_run keep by simp
qed

theorem same_dead_link_twice_witness:
  "fst (snd (check_link_status dead_world empty_store sample_link)) = sample_store
   \<and> fst (snd (check_link_status dead_world sample_store sample_link)) = sample_store
   \<and> length (matching_sources sample_store ''example.com'' sample_link) = 1"
proof -
  have a: "lr_domain_available sample_record = Some True"
    and b: "lr_domain sample_record = Some ''example.com''"
    by (simp_all add: sample_record_def)
  have c: "length (matching_sources empty_store ''example.com'' sample_link) \<le> 1"
    by (simp add: matching_sources_def empty_store_def)
  show ?thesis
    using same_dead_link_twice [OF sample_link_checked a b c sample_link_checked_again]
    by (simp add: sample_link_checked sample_link_checked_again)
qed

section \<open>Invariant of the store\<close>

lemma add_available_domain_store:
  "results (fst (add_available_domain w st link d v)) = results st"
  "dom (available_domains (fst (add_available_domain w st link d v)))
     = insert d (dom (available_domains st))"
  by (auto simp: add_available_domain_def Let_def)

lemma check_link_status_results:
  "results (fst (snd (check_link_status w st link))) = results st"
  using check_link_status_store [of w st link] add_available_domain_store(1)
  by auto

lemma check_link_status_keys:
  assumes "\<forall>d. d \<in> dom (available_domains st) \<longrightarrow> \<not> is_excluded_domain (Some d)"
  shows "\<forall>d. d \<in> dom (available_domains (fst (snd (check_link_status w st link))))
           \<longrightarrow> \<not> is_excluded_domain (Some d)"
proof -
  consider (same) "fst (snd (check_link_status w st link)) = st"
    | (added) d v lk where "check_domain_availability w (Some d) = (Inr v, lk)" "available v"
        "fst (snd (check_link_status w st link)) = fst (add_available_domain w st link d v)"
    using check_link_status_store [of w st link] by blast
  then show ?thesis
  proof cases
    case same
    then show ?thesis using assms by simp
  next
    case added
    have "\<not> is_excluded_domain (Some d)"
      using available_verdict_eligible [OF added(1) added(2)] by simp
    then show ?thesis
      using assms added(3) add_available_domain_store(2) [of w st link d v] by auto
  qed
qed

lemma check_link_status_eligible:
  assumes "fst (check_link_status w st link) = Inr r"
  shows "eligible r"
proof (cases "lr_domain_available r = Some True")
  case True
  obtain st' evs where c: "check_link_status w st link = (Inr r, st', evs)"
    using assms by (cases "check_link_status w st link") auto
  obtain d v lk where "lr_domain r = Some d"
      "check_domain_availability w (Some d) = (Inr v, lk)" "available v"
    using check_link_status_available [OF c True] by blast
  then show ?thesis
    using available_verdict_eligible [of w "Some d" v lk] by (simp add: eligible_def)
next
  case False
  then show ?thesis by (simp add: eligible_def)
qed

lemma check_link_status_invariant:
  "store_invariant st \<Longrightarrow> store_invariant (fst (snd (check_link_status w st link)))"
  using check_link_status_keys [of st w link] check_link_status_results [of w st link]
  by (simp add: store_invariant_def)

lemma check_all_invariant:
  "store_invariant st \<Longrightarrow> store_invariant (fst (snd (check_all w st links)))"
proof (induction links arbitrary: st)
  case Nil
  then show ?case by simp
next
  case (Cons link links)
  have "store_invariant (fst (snd (check_link_status w st link)))"
    using Cons.prems by (rule check_link_status_invariant)
  then have "store_invariant (fst (snd (check_all w (fst (snd (check_link_status w st link))) links)))"
    by (rule Cons.IH)
  then show ?case
    by (simp add: split_beta)
qed

lemma check_all_eligible:
  "Inr r \<in> set (fst (check_all w st links)) \<Longrightarrow> eligible r"
proof (induction links arbitrary: st)
  case Nil
  then show ?case by simp
next
  case (Cons link links)
  then show ?case
    using check_link_status_eligible [of w st link r]
    by (auto simp: split_beta)
qed

lemma eligible_article: "eligible (r\<lparr>lr_article_title := t, lr_article_url := u\<rparr>) = eligible r"
  by (simp add: eligible_def)

lemma collect_dead_invariant:
  "store_invariant st \<Longrightarrow> (\<forall>r. Inr r \<in> set outcomes \<longrightarrow> eligible r)
     \<Longrightarrow> store_invariant (fst (snd (collect_dead t u st dead outcomes)))"
proof (induction t u st dead outcomes rule: collect_dead.induct)
  case (1 t u st dead)
  then show ?case by simp
next
  case (2 t u st dead e outcomes)
  then show ?case by simp
next
  case (3 t u st dead result outcomes)
  show ?case
  proof (cases "is_dead (lr_status_code result)")
    case True
    let ?r = "result\<lparr>lr_article_title := Some t, lr_article_url := Some u\<rparr>"
    let ?st = "st\<lparr>results := (results st)(link_id (lr_url ?r) u \<mapsto> ?r)\<rparr>"
    have "eligible ?r" using "3.prems"(2) by (simp add: eligible_article)
    then have "store_invariant ?st"
      using "3.prems"(1) by (auto simp: store_invariant_def)
    then have "store_invariant (fst (snd (collect_dead t u ?st (dead @ [?r]) outcomes)))"
      using "3.IH"(1) [OF True refl refl] "3.prems"(2) by simp
    then show ?thesis using True by (simp add: Let_def split_beta)
  next
    case False
    then show ?thesis using 3 by simp
  qed
qed

lemma process_article_invariant:
  "store_invariant st \<Longrightarrow> store_invariant (fst (snd (process_article w st u t)))"
  using check_all_invariant check_all_eligible collect_dead_invariant
  by (auto simp: process_article_def Let_def split_beta
      split: fetch_outcome.splits sum.splits py_exception.splits)

lemma batch_loop_invariant:
  "store_invariant st \<Longrightarrow> store_invariant (fst (snd (snd (batch_loop w pb n st i pages))))"
proof (induction pages arbitrary: st i)
  case Nil
  then show ?case by simp
next
  case (Cons page pages)
  have "store_invariant (fst (snd (process_article w st (page_url page) (Some (page_title page)))))"
    using Cons.prems by (rule process_article_invariant)
  then show ?case
    using Cons.IH by (simp add: split_beta)
qed

lemma article_soup_links:
  "extract_external_links article_soup =
     [\<lparr>link_url = ''http://www.example.com/page'', link_text = ''Example'',
       link_article_title = None, link_article_url = None\<rparr>]"
  by (simp add: extract_external_links_def section_links_def citation_links_def document_def
      article_soup_def anchor_links_def external_anchors_def has_class_def class_tokens_def
      is_space_def startswith_def strip_def get_text_def)

lemma sample_article_processed:
  "process_article dead_world empty_store ''https://en.wikipedia.org/wiki/Article''
       (Some ''Article'') =
     ([stored_record], processed_store,
      [FetchArticle ''https://en.wikipedia.org/wiki/Article'',
       HttpHead ''http://www.example.com/page'', HttpGet ''http://www.example.com/page'',
       WhoisQuery ''example.com'', DnsQuery ''example.com'', SaveAvailableDomains,
       SaveResults])"
proof -
  have f: "fetch_article dead_world ''https://en.wikipedia.org/wiki/Article''
             = Response 200 article_soup"
    by (simp add: dead_world_def quiet_world_def)
  have l: "map (\<lambda>l. l\<lparr>link_article_title := Some ''Article'',
                       link_article_url := Some ''https://en.wikipedia.org/wiki/Article''\<rparr>)
               (extract_external_links article_soup) = [sample_link]"
    by (simp add: article_soup_links sample_link_def)
  have c: "check_all dead_world empty_store [sample_link] =
             ([Inr sample_record], sample_store,
              [HttpHead ''http://www.example.com/page'', HttpGet ''http://www.example.com/page'',
               WhoisQuery ''example.com'', DnsQuery ''example.com'', SaveAvailableDomains])"
    by (simp add: sample_link_checked)
  have d: "collect_dead ''Article'' ''https://en.wikipedia.org/wiki/Article'' sample_store []
             [Inr sample_record] = (Inr [stored_record], processed_store, [SaveResults])"
    by (simp add: sample_record_def stored_record_def processed_store_def sample_store_def
        link_id_def Let_def)
  show ?thesis
    unfolding process_article_def
    by (simp add: f l c d Let_def del: check_all.simps collect_dead.simps)
qed

text \<open>
  C6. The invariant of the store, that no key of \<open>available_domains\<close> is an excluded domain
  and that every stored link record that says its domain is available has a domain that
  is neither excluded nor restricted, is preserved by every operation that writes records:
  \<open>check_link_status\<close>, \<open>process_article\<close> and \<open>batch_process_articles\<close>. Every record
  that \<open>check_link_status\<close> returns is eligible as well.
\<close>

theorem store_invariant_preserved:
  assumes "store_invariant st"
  shows "store_invariant (fst (snd (check_link_status w st link)))
         \<and> (\<forall>r. fst (check_link_status w st link) = Inr r \<longrightarrow> eligible r)
         \<and> store_invariant (fst (snd (process_article w st article_url article_title)))
         \<and> store_invariant
             (fst (snd (snd (batch_process_articles w st pages max_pages progress_bar))))"
  using assms check_link_status_invariant check_link_status_eligible process_article_invariant
    batch_loop_invariant
  by (simp add: batch_process_articles_def Let_def)

theorem store_invariant_preserved_witness:
  "store_invariant empty_store
   \<and> store_invariant processed_store
   \<and> results processed_store
       ''http://www.example.com/page_https://en.wikipedia.org/wiki/Article'' = Some stored_record
   \<and> lr_domain_available stored_record = Some True
   \<and> lr_domain stored_record = Some ''example.com''
   \<and> \<not> is_excluded_domain (Some ''example.com'')
   \<and> \<not> is_restricted_tld (Some ''example.com'')"
proof -
  have e: "store_invariant empty_store"
    by (simp add: store_invariant_def empty_store_def)
  have p: "store_invariant processed_store"
    using store_invariant_preserved
            [OF e, of dead_world sample_link "''https://en.wikipedia.org/wiki/Article''"
               "Some ''Article''" "[]" None False]
    by (simp add: sample_article_processed)
  have r: "results processed_store
       ''http://www.example.com/page_https://en.wikipedia.org/wiki/Article'' = Some stored_record"
    by (simp add: processed_store_def)
  have a: "lr_domain_available stored_record = Some True"
    "lr_domain stored_record = Some ''example.com''"
    by (simp_all add: stored_record_def sample_record_def)
  have "eligible stored_record"
    using p r unfolding store_invariant_def by blast
  then show ?thesis
    using e p r a by (simp add: eligible_def)
qed

end
